theory Spec2Isabelle
  imports Main
begin

section \<open>Errors, panics and constants of the marshaler\<close>

text \<open>
  Go error values as the marshaler builds them: \<open>errors.New msg\<close> and
  \<open>errors.Wrap err msg\<close>. The errors returned by the external collaborators
  (parser, linters, schema conversion, file system) are values of the same type.
\<close>

datatype error = New string | Wrap error string

text \<open>
  A call that does not produce its value either returns an error to the caller or
  panics on a nil-pointer dereference; the two are kept apart.
\<close>

datatype failure = Returned error | Panic

definition errFailedToParsePkgYaml :: string where
  "errFailedToParsePkgYaml = ''failed to parse package yaml''"

definition errLintPackage :: string where
  "errLintPackage = ''failed to lint package''"

definition errOpenPackageStream :: string where
  "errOpenPackageStream = ''failed to open package stream file''"

definition errFaileToAcquireDigest :: string where
  "errFaileToAcquireDigest = ''failed to pull digest from image''"

definition errFailedToConvertMetaToPackage :: string where
  "errFailedToConvertMetaToPackage = ''failed to convert meta to package''"

definition errInvalidPath :: string where
  "errInvalidPath = ''invalid path provided for package lookup''"

definition errNotExactlyOneMeta :: string where
  "errNotExactlyOneMeta = ''not exactly one package meta type''"

definition errObjectNotKnownType :: string where
  "errObjectNotKnownType = ''object is not a known type''"

definition digestPrefix :: string where
  "digestPrefix = ''sha256:''"

definition dockerhub :: string where
  "dockerhub = ''index.docker.io''"

text \<open>
  \<open>v1beta1.PackageType\<close> is a Go string type with two named constants; its zero
  value, the type of a dependency that was never classified, is the empty string.
  \<open>xpmetav1.ConfigurationKind\<close> is the kind name of the Configuration meta type.
\<close>

type_synonym PackageType = string

definition ConfigurationPackageType :: PackageType where
  "ConfigurationPackageType = ''Configuration''"

definition ProviderPackageType :: PackageType where
  "ProviderPackageType = ''Provider''"

definition ConfigurationKind :: string where
  "ConfigurationKind = ''Configuration''"


section \<open>Standard-library string functions used by the marshaler\<close>

text \<open>
  \<open>strings.Split s sep\<close> for a separator of one byte (the marshaler only splits
  at \<open>@\<close>): the pieces between the separators, of which there is always one more
  than there are separators.
\<close>

fun strings_Split :: "string \<Rightarrow> char \<Rightarrow> string list" where
  "strings_Split [] sep = [[]]"
| "strings_Split (c # cs) sep =
     (if c = sep then [] # strings_Split cs sep
      else (case strings_Split cs sep of
              [] \<Rightarrow> [[c]]
            | p # ps \<Rightarrow> (c # p) # ps))"

definition strings_HasPrefix :: "string \<Rightarrow> string \<Rightarrow> bool" where
  "strings_HasPrefix s pre = (take (length pre) s = pre)"

text \<open>
  \<open>filepath.Base\<close> on a slash-separated path: the empty path gives a dot,
  trailing slashes are stripped, the last element is kept, and a path of slashes
  only gives one slash.
\<close>

definition filepath_Base :: "string \<Rightarrow> string" where
  "filepath_Base path =
     (if path = [] then ''.''
      else
        let p = rev (dropWhile (\<lambda>c. c = CHR ''/'') (rev path));
            b = rev (takeWhile (\<lambda>c. c \<noteq> CHR ''/'') (rev p))
        in if b = [] then ''/'' else b)"


section \<open>Package name derivation\<close>

text \<open>\<open>derivePkgName\<close>; \<open>fmt.Sprintf "%s/%s"\<close> on two strings is concatenation around a slash.\<close>

definition derivePkgName :: "string \<Rightarrow> string \<Rightarrow> string" where
  "derivePkgName registry repo =
     (if registry \<noteq> dockerhub then registry @ ''/'' @ repo else repo)"


section \<open>Dependency extraction\<close>

text \<open>
  \<open>xpmetav1.Dependency\<close>, the source dependency: two optional references (Go
  string pointers, \<open>None\<close> for nil) and a version string.
\<close>

record MetaDependency =
  Provider :: "string option"
  Configuration :: "string option"
  Version :: string

text \<open>\<open>v1beta1.Dependency\<close>, the normalised dependency handed to the resolver.\<close>

record Dependency =
  Package :: string
  Type :: PackageType
  Constraints :: string

definition convertToV1beta1 :: "MetaDependency \<Rightarrow> Dependency" where
  "convertToV1beta1 d =
     (let betaD = \<lparr>Package = [], Type = [], Constraints = Version d\<rparr>;
          betaD = (if Provider d \<noteq> None \<and> Configuration d = None
                   then betaD\<lparr>Package := the (Provider d), Type := ProviderPackageType\<rparr>
                   else betaD);
          betaD = (if Configuration d \<noteq> None \<and> Provider d = None
                   then betaD\<lparr>Package := the (Configuration d), Type := ConfigurationPackageType\<rparr>
                   else betaD)
      in betaD)"

text \<open>
  \<open>determineDeps\<close>. \<open>xpkg.TryConvertToPkg\<close> is passed in: applied to the meta
  object it gives the dependency list of the package description the object converts
  to, or \<open>None\<close> when the object is neither a Provider nor a Configuration meta.
  The loop \<open>out[i] = convertToV1beta1(d)\<close> over a slice of the same length is a map.
\<close>

definition determineDeps :: "('m \<Rightarrow> MetaDependency list option) \<Rightarrow> 'm \<Rightarrow> error + Dependency list" where
  "determineDeps tryConvertToPkg o' =
     (case tryConvertToPkg o' of
        None \<Rightarrow> Inl (New errFailedToConvertMetaToPackage)
      | Some deps \<Rightarrow> Inr (map convertToV1beta1 deps))"


section \<open>Schema-bearing body objects\<close>

text \<open>\<open>schema.GroupVersionKind\<close>, the key of the schema index, and its constructor \<open>gvk\<close>.\<close>

record GroupVersionKind =
  gvkGroup :: string
  gvkVersion :: string
  gvkKind :: string

definition gvk :: "string \<Rightarrow> string \<Rightarrow> string \<Rightarrow> GroupVersionKind" where
  "gvk grp version kind = \<lparr>gvkGroup = grp, gvkVersion = version, gvkKind = kind\<rparr>"

text \<open>
  The current-generation (v1) CustomResourceDefinition, reduced to the fields the
  marshaler reads: \<open>Spec.Group\<close>, \<open>Spec.Names.Kind\<close> and, for each entry of
  \<open>Spec.Versions\<close>, \<open>Name\<close> and \<open>Schema\<close>. \<open>Schema\<close> is a pointer to a
  CustomResourceValidation, whose \<open>OpenAPIV3Schema\<close> is a pointer to the schema
  document (type \<open>'d\<close>, \<open>v1ext.JSONSchemaProps\<close>); \<open>None\<close> is nil.
\<close>

record 'd CustomResourceValidation =
  OpenAPIV3Schema :: "'d option"

record 'd CustomResourceDefinitionVersion =
  Name :: string
  Schema :: "'d CustomResourceValidation option"

record 'd CustomResourceDefinition =
  Group :: string
  Kind :: string
  Versions :: "'d CustomResourceDefinitionVersion list"

text \<open>
  The internal representation (\<open>apiextensions.CustomResourceDefinition\<close>) a
  legacy-generation (v1beta1) definition is converted to. It has a top-level
  \<open>Spec.Validation\<close> next to the per-version \<open>Schema\<close>; both are pointers to an
  internal CustomResourceValidation (type \<open>'c\<close>), passed on unopened.
\<close>

record 'c InternalVersion =
  iName :: string
  iSchema :: "'c option"

record 'c InternalCRD =
  iGroup :: string
  iKind :: string
  iValidation :: "'c option"
  iVersions :: "'c InternalVersion list"

text \<open>
  The CompositeResourceDefinition of either generation (the two Go types have the
  same shape): each version's \<open>Schema\<close> is a pointer to a struct holding the raw
  bytes \<open>OpenAPIV3Schema.Raw\<close>; \<open>None\<close> is the nil pointer.
\<close>

record CompositeResourceDefinitionVersion =
  xName :: string
  xSchemaRaw :: "string option"

record CompositeResourceDefinition =
  xGroup :: string
  xKind :: string
  xVersions :: "CompositeResourceDefinitionVersion list"

text \<open>
  A body object (\<open>runtime.Object\<close>) by its concrete Go type, as the type switch of
  \<open>finalizePkg\<close> tells them apart. The legacy CustomResourceDefinition (type
  \<open>'b\<close>) is only ever handed to the conversion function. \<open>OtherObject\<close> carries
  the name of any other type.
\<close>

datatype ('b, 'd) Object =
    V1Beta1CRD 'b
  | V1CRD "'d CustomResourceDefinition"
  | V1Beta1XRD CompositeResourceDefinition
  | V1XRD CompositeResourceDefinition
  | OtherObject string

text \<open>
  The external schema collaborators, passed in as a record of functions:
  the conversion of a v1beta1 definition to the internal one, the apiextensions
  \<open>validation.NewSchemaValidator\<close> (which accepts a nil validation), \<open>json.Unmarshal\<close>
  into schema properties, the two conversions of \<open>newV1SchemaValidator\<close> and the
  validator constructor \<open>validate.NewSchemaValidator\<close>, which cannot fail.
\<close>

record ('b, 'c, 'd, 'q, 's, 'v) SchemaEnv =
  Convert_v1beta1_CRD :: "'b \<Rightarrow> error + 'c InternalCRD"
  validation_NewSchemaValidator :: "'c option \<Rightarrow> error + 'v"
  json_Unmarshal :: "string \<Rightarrow> error + 'd"
  Convert_v1_JSONSchemaProps :: "'d \<Rightarrow> error + 'q"
  ConvertJSONSchemaPropsWithPostProcess :: "'q \<Rightarrow> error + 's"
  validate_NewSchemaValidator :: "'s \<Rightarrow> 'v"

type_synonym 'v Index = "GroupVersionKind \<rightharpoonup> 'v"


section \<open>Schema validator builder\<close>

definition newV1SchemaValidator ::
  "('b, 'c, 'd, 'q, 's, 'v) SchemaEnv \<Rightarrow> 'd \<Rightarrow> error + ('v \<times> 's)" where
  "newV1SchemaValidator env schema =
     (case Convert_v1_JSONSchemaProps env schema of
        Inl err \<Rightarrow> Inl err
      | Inr out \<Rightarrow>
          (case ConvertJSONSchemaPropsWithPostProcess env out of
             Inl err \<Rightarrow> Inl err
           | Inr openapiSchema \<Rightarrow>
               Inr (validate_NewSchemaValidator env openapiSchema, openapiSchema)))"

text \<open>
  \<open>validatorsFromV1Beta1CRD\<close>. With a top-level validation the validator is built
  once and stored under the key of every version; the second loop, over the
  per-version schemas, is only reached without one.
\<close>

fun v1beta1_versions ::
  "('b, 'c, 'd, 'q, 's, 'v) SchemaEnv \<Rightarrow> 'c InternalCRD \<Rightarrow> 'c InternalVersion list \<Rightarrow>
     'v Index \<Rightarrow> failure + 'v Index" where
  "v1beta1_versions env internal [] acc = Inr acc"
| "v1beta1_versions env internal (v # vs) acc =
     (case validation_NewSchemaValidator env (iSchema v) of
        Inl err \<Rightarrow> Inl (Returned err)
      | Inr sv \<Rightarrow>
          v1beta1_versions env internal vs
            (acc(gvk (iGroup internal) (iName v) (iKind internal) \<mapsto> sv)))"

definition validatorsFromV1Beta1CRD ::
  "('b, 'c, 'd, 'q, 's, 'v) SchemaEnv \<Rightarrow> 'b \<Rightarrow> 'v Index \<Rightarrow> failure + 'v Index" where
  "validatorsFromV1Beta1CRD env c acc =
     (case Convert_v1beta1_CRD env c of
        Inl err \<Rightarrow> Inl (Returned err)
      | Inr internal \<Rightarrow>
          if iValidation internal \<noteq> None then
            (case validation_NewSchemaValidator env (iValidation internal) of
               Inl err \<Rightarrow> Inl (Returned err)
             | Inr sv \<Rightarrow>
                 Inr (fold (\<lambda>v a. a(gvk (iGroup internal) (iName v) (iKind internal) \<mapsto> sv))
                        (iVersions internal) acc))
          else v1beta1_versions env internal (iVersions internal) acc)"

text \<open>
  \<open>validatorsFromV1CRD\<close>. \<open>*v.Schema.OpenAPIV3Schema\<close> reads through two
  pointers with no nil check: a nil at either is a panic.
\<close>

fun v1_versions ::
  "('b, 'c, 'd, 'q, 's, 'v) SchemaEnv \<Rightarrow> 'd CustomResourceDefinition \<Rightarrow>
     'd CustomResourceDefinitionVersion list \<Rightarrow> 'v Index \<Rightarrow> failure + 'v Index" where
  "v1_versions env c [] acc = Inr acc"
| "v1_versions env c (v # vs) acc =
     (case Schema v of
        None \<Rightarrow> Inl Panic
      | Some cv \<Rightarrow>
          (case OpenAPIV3Schema cv of
             None \<Rightarrow> Inl Panic
           | Some props \<Rightarrow>
               (case newV1SchemaValidator env props of
                  Inl err \<Rightarrow> Inl (Returned err)
                | Inr (sv, _) \<Rightarrow>
                    v1_versions env c vs (acc(gvk (Group c) (Name v) (Kind c) \<mapsto> sv)))))"

definition validatorsFromV1CRD ::
  "('b, 'c, 'd, 'q, 's, 'v) SchemaEnv \<Rightarrow> 'd CustomResourceDefinition \<Rightarrow> 'v Index \<Rightarrow>
     failure + 'v Index" where
  "validatorsFromV1CRD env c acc = v1_versions env c (Versions c) acc"

text \<open>
  \<open>validatorsFromV1Beta1XRD\<close> and \<open>validatorsFromV1XRD\<close>: the raw bytes are
  decoded, then compiled as for a v1 definition. \<open>v.Schema.OpenAPIV3Schema.Raw\<close>
  reads through the \<open>Schema\<close> pointer with no nil check.
\<close>

fun xrd_versions ::
  "('b, 'c, 'd, 'q, 's, 'v) SchemaEnv \<Rightarrow> CompositeResourceDefinition \<Rightarrow>
     CompositeResourceDefinitionVersion list \<Rightarrow> 'v Index \<Rightarrow> failure + 'v Index" where
  "xrd_versions env x [] acc = Inr acc"
| "xrd_versions env x (v # vs) acc =
     (case xSchemaRaw v of
        None \<Rightarrow> Inl Panic
      | Some raw \<Rightarrow>
          (case json_Unmarshal env raw of
             Inl err \<Rightarrow> Inl (Returned err)
           | Inr props \<Rightarrow>
               (case newV1SchemaValidator env props of
                  Inl err \<Rightarrow> Inl (Returned err)
                | Inr (sv, _) \<Rightarrow>
                    xrd_versions env x vs (acc(gvk (xGroup x) (xName v) (xKind x) \<mapsto> sv)))))"

definition validatorsFromV1Beta1XRD ::
  "('b, 'c, 'd, 'q, 's, 'v) SchemaEnv \<Rightarrow> CompositeResourceDefinition \<Rightarrow> 'v Index \<Rightarrow>
     failure + 'v Index" where
  "validatorsFromV1Beta1XRD env x acc = xrd_versions env x (xVersions x) acc"

definition validatorsFromV1XRD ::
  "('b, 'c, 'd, 'q, 's, 'v) SchemaEnv \<Rightarrow> CompositeResourceDefinition \<Rightarrow> 'v Index \<Rightarrow>
     failure + 'v Index" where
  "validatorsFromV1XRD env x acc = xrd_versions env x (xVersions x) acc"

text \<open>
  The loop of \<open>finalizePkg\<close> over the body objects: a type switch with a default
  branch that returns \<open>errObjectNotKnownType\<close>; the first failure ends the loop.
\<close>

definition validatorsFromObject ::
  "('b, 'c, 'd, 'q, 's, 'v) SchemaEnv \<Rightarrow> ('b, 'd) Object \<Rightarrow> 'v Index \<Rightarrow> failure + 'v Index" where
  "validatorsFromObject env o' v =
     (case o' of
        V1Beta1CRD rd \<Rightarrow> validatorsFromV1Beta1CRD env rd v
      | V1CRD rd \<Rightarrow> validatorsFromV1CRD env rd v
      | V1Beta1XRD rd \<Rightarrow> validatorsFromV1Beta1XRD env rd v
      | V1XRD rd \<Rightarrow> validatorsFromV1XRD env rd v
      | OtherObject _ \<Rightarrow> Inl (Returned (New errObjectNotKnownType)))"

fun validatorsFromObjects ::
  "('b, 'c, 'd, 'q, 's, 'v) SchemaEnv \<Rightarrow> ('b, 'd) Object list \<Rightarrow> 'v Index \<Rightarrow>
     failure + 'v Index" where
  "validatorsFromObjects env [] v = Inr v"
| "validatorsFromObjects env (o' # os) v =
     (case validatorsFromObject env o' v of
        Inl f \<Rightarrow> Inl f
      | Inr v' \<Rightarrow> validatorsFromObjects env os v')"


section \<open>Parsing, classification and linting\<close>

text \<open>
  What the generic package parser returns: the meta objects and the body objects.
\<close>

record ('m, 'o) Package =
  GetMeta :: "'m list"
  GetObjects :: "'o list"

text \<open>
  Modelled from the spec: the declaration of the struct \<open>ParsedPackage\<close> and of its
  accessor \<open>Objects\<close> is in a file of the package that is not among the sources. The
  record is the spec's Parsed Package (meta object, body objects, package type,
  dependencies, schema index, identity), under the field names the marshaler assigns
  to; \<open>Objects\<close> is read as the field \<open>Objs\<close>. \<open>parse\<close> sets the first three
  fields and leaves the others at their zero values; \<open>finalizePkg\<close> sets the rest.
\<close>

record ('m, 'o, 'v) ParsedPackage =
  MetaObj :: 'm
  Objs :: "'o list"
  PType :: PackageType
  Deps :: "Dependency list"
  GVKtoV :: "'v Index"
  DepName :: string
  Reg :: string
  SHA :: string
  Ver :: string

text \<open>
  What a marshal call reads from: the reader over the files of a directory (file
  system, directory and the paths that passed the filters) or the stream file opened
  in the flattened image.
\<close>

datatype ('f, 'h) Reader = FsReadCloser 'f string "string list" | StreamFile 'h

text \<open>\<open>os.FileInfo\<close>, of which only \<open>IsDir\<close> is read.\<close>

record FileInfo =
  IsDir :: bool

text \<open>
  The collaborators outside the schema builder, passed in as a record of functions:
  \<^item> \<open>Walk fs dir\<close>: the calls \<open>afero.Walk\<close> makes to its callback, in order
    (path, file info and the error of reaching the path), as long as the callback
    returns nil;
  \<^item> \<open>ImageDigest\<close> and \<open>OpenStreamFile\<close>: the digest of an image, and opening
    the package stream file in its extracted layers;
  \<^item> \<open>Parse\<close>: the package parser \<open>r.p\<close>;
  \<^item> \<open>GetKind\<close>: the kind of a meta object's GroupVersionKind;
  \<^item> \<open>ConfigurationLinter\<close> and \<open>ProviderLinter\<close>: the \<open>Lint\<close> method of
    the two linters, \<open>None\<close> for a nil error;
  \<^item> \<open>TryConvertToPkg\<close>: see \<open>determineDeps\<close>.
  The linters and \<open>TryConvertToPkg\<close> belong to a package of the repository that is
  not among the sources; no property below depends on what they compute.
\<close>

record ('f, 'i, 'h, 'm, 'o) Collaborators =
  Walk :: "'f \<Rightarrow> string \<Rightarrow> (string \<times> FileInfo \<times> error option) list"
  ImageDigest :: "'i \<Rightarrow> error + string"
  OpenStreamFile :: "'i \<Rightarrow> error + 'h"
  Parse :: "('f, 'h) Reader \<Rightarrow> error + ('m, 'o) Package"
  GetKind :: "'m \<Rightarrow> string"
  ConfigurationLinter :: "('m, 'o) Package \<Rightarrow> error option"
  ProviderLinter :: "('m, 'o) Package \<Rightarrow> error option"
  TryConvertToPkg :: "'m \<Rightarrow> MetaDependency list option"

definition parse ::
  "('f, 'i, 'h, 'm, 'o) Collaborators \<Rightarrow> ('f, 'h) Reader \<Rightarrow> error + ('m, 'o, 'v) ParsedPackage" where
  "parse r reader =
     (case Parse r reader of
        Inl err \<Rightarrow> Inl (Wrap err errFailedToParsePkgYaml)
      | Inr pkg \<Rightarrow>
          let metas = GetMeta pkg in
          if length metas \<noteq> 1 then Inl (New errNotExactlyOneMeta)
          else
            let meta = metas ! 0;
                (linter, pkgType) =
                  (if GetKind r meta = ConfigurationKind
                   then (ConfigurationLinter r, ConfigurationPackageType)
                   else (ProviderLinter r, ProviderPackageType))
            in (case linter pkg of
                  Some err \<Rightarrow> Inl (Wrap err errLintPackage)
                | None \<Rightarrow>
                    Inr \<lparr>MetaObj = meta, Objs = GetObjects pkg, PType = pkgType,
                         Deps = [], GVKtoV = Map.empty, DepName = [], Reg = [],
                         SHA = [], Ver = []\<rparr>))"


section \<open>Finalizing a package\<close>

definition finalizePkg ::
  "('f, 'i, 'h, 'm, ('b, 'd) Object) Collaborators \<Rightarrow> ('b, 'c, 'd, 'q, 's, 'v) SchemaEnv \<Rightarrow>
     string \<Rightarrow> string \<Rightarrow> string \<Rightarrow> string \<Rightarrow> ('m, ('b, 'd) Object, 'v) ParsedPackage \<Rightarrow>
     failure + ('m, ('b, 'd) Object, 'v) ParsedPackage" where
  "finalizePkg r env reg repo ver digest pkg =
     (case determineDeps (TryConvertToPkg r) (MetaObj pkg) of
        Inl err \<Rightarrow> Inl (Returned err)
      | Inr deps \<Rightarrow>
          (case validatorsFromObjects env (Objs pkg) Map.empty of
             Inl f \<Rightarrow> Inl f
           | Inr v \<Rightarrow>
               Inr (pkg\<lparr>Deps := deps, GVKtoV := v, DepName := derivePkgName reg repo,
                        Reg := reg, SHA := digest, Ver := ver\<rparr>)))"


section \<open>Acquiring the stream\<close>

text \<open>
  A filter of the directory reader (\<open>parser.FilterFn\<close>) returns whether the path is
  to be left out, or an error. \<open>skipDigest\<close> writes through a pointer to the
  \<open>digest\<close> variable of \<open>FromDir\<close>, so a filter takes the content of that variable
  and returns it, updated.
\<close>

type_synonym FilterFn = "string \<Rightarrow> FileInfo \<Rightarrow> string \<Rightarrow> (error + bool) \<times> string"

definition skipDigest :: FilterFn where
  "skipDigest path info digest =
     (let base = filepath_Base path in
      if strings_HasPrefix base digestPrefix then (Inr True, base) else (Inr False, digest))"

text \<open>\<open>parser.SkipDirs\<close> of the parser library: leaves out every directory.\<close>

definition SkipDirs :: FilterFn where
  "SkipDirs path info digest = (if IsDir info then (Inr True, digest) else (Inr False, digest))"

text \<open>
  \<open>parser.NewFsReadCloser\<close> of the parser library. Its walk callback returns the
  error of the walk if there is one, asks the filters in order, stops at the first
  that fails or says to leave the path out, and otherwise appends the path. An error
  from the callback ends the walk.
\<close>

fun applyFilters :: "FilterFn list \<Rightarrow> string \<Rightarrow> FileInfo \<Rightarrow> string \<Rightarrow> (error + bool) \<times> string" where
  "applyFilters [] path info digest = (Inr False, digest)"
| "applyFilters (fn # fns) path info digest =
     (case fn path info digest of
        (Inl err, digest') \<Rightarrow> (Inl err, digest')
      | (Inr filter', digest') \<Rightarrow>
          if filter' then (Inr True, digest') else applyFilters fns path info digest')"

fun walkPaths ::
  "FilterFn list \<Rightarrow> (string \<times> FileInfo \<times> error option) list \<Rightarrow> string list \<Rightarrow> string \<Rightarrow>
     (error + string list) \<times> string" where
  "walkPaths fns [] paths digest = (Inr paths, digest)"
| "walkPaths fns ((path, info, err) # calls) paths digest =
     (case err of
        Some e \<Rightarrow> (Inl e, digest)
      | None \<Rightarrow>
          (case applyFilters fns path info digest of
             (Inl e, digest') \<Rightarrow> (Inl e, digest')
           | (Inr filter', digest') \<Rightarrow>
               if filter' then walkPaths fns calls paths digest'
               else walkPaths fns calls (paths @ [path]) digest'))"

definition NewFsReadCloser ::
  "('f, 'i, 'h, 'm, 'o) Collaborators \<Rightarrow> 'f \<Rightarrow> string \<Rightarrow> FilterFn list \<Rightarrow> string \<Rightarrow>
     (error + ('f, 'h) Reader) \<times> string" where
  "NewFsReadCloser r fs dir fns digest =
     (case walkPaths fns (Walk r fs dir) [] digest of
        (Inl err, digest') \<Rightarrow> (Inl err, digest')
      | (Inr paths, digest') \<Rightarrow> (Inr (FsReadCloser fs dir paths), digest'))"

definition FromDir ::
  "('f, 'i, 'h, 'm, ('b, 'd) Object) Collaborators \<Rightarrow> ('b, 'c, 'd, 'q, 's, 'v) SchemaEnv \<Rightarrow>
     'f \<Rightarrow> string \<Rightarrow> string \<Rightarrow> string \<Rightarrow> failure + ('m, ('b, 'd) Object, 'v) ParsedPackage" where
  "FromDir r env fs path reg repo =
     (let parts = strings_Split path CHR ''@'' in
      if length parts \<noteq> 2 then Inl (Returned (New errInvalidPath))
      else
        (case NewFsReadCloser r fs path [SkipDirs, skipDigest] [] of
           (Inl err, digest) \<Rightarrow> Inl (Returned err)
         | (Inr reader, digest) \<Rightarrow>
             (case parse r reader of
                Inl err \<Rightarrow> Inl (Returned err)
              | Inr pkg \<Rightarrow> finalizePkg r env reg repo (parts ! 1) digest pkg)))"

definition FromImage ::
  "('f, 'i, 'h, 'm, ('b, 'd) Object) Collaborators \<Rightarrow> ('b, 'c, 'd, 'q, 's, 'v) SchemaEnv \<Rightarrow>
     string \<Rightarrow> string \<Rightarrow> string \<Rightarrow> 'i \<Rightarrow> failure + ('m, ('b, 'd) Object, 'v) ParsedPackage" where
  "FromImage r env reg repo ver i =
     (case ImageDigest r i of
        Inl err \<Rightarrow> Inl (Returned (Wrap err errFaileToAcquireDigest))
      | Inr digest \<Rightarrow>
          (case OpenStreamFile r i of
             Inl err \<Rightarrow> Inl (Returned (Wrap err errOpenPackageStream))
           | Inr pkgYaml \<Rightarrow>
               (case parse r (StreamFile pkgYaml) of
                  Inl err \<Rightarrow> Inl (Returned err)
                | Inr pkg \<Rightarrow> finalizePkg r env reg repo ver digest pkg)))"


section \<open>The insertions of a validator-building pass\<close>

text \<open>
  Stated for comparison with the builder, not taken from it: the sequence of (key,
  validator) pairs that a pass over the body objects produces, in the order of the
  objects and of their versions. A version yields its pair when its schema is there
  and compiles; an object yields the pairs of its versions (or, for a legacy definition
  with a top-level validation, the one validator under the key of every version);
  the sequence exists when every object of the list yields its pairs.
  \<open>insertAll\<close> stores a sequence of pairs into an index, one after the other.
\<close>

definition insertAll :: "(GroupVersionKind \<times> 'v) list \<Rightarrow> 'v Index \<Rightarrow> 'v Index" where
  "insertAll ps acc = fold (\<lambda>e m. m(fst e \<mapsto> snd e)) ps acc"

definition v1beta1_entry ::
  "('b, 'c, 'd, 'q, 's, 'v) SchemaEnv \<Rightarrow> 'c InternalCRD \<Rightarrow> 'c InternalVersion \<Rightarrow>
     (GroupVersionKind \<times> 'v) option" where
  "v1beta1_entry env internal v =
     (case validation_NewSchemaValidator env (iSchema v) of
        Inl err \<Rightarrow> None
      | Inr sv \<Rightarrow> Some (gvk (iGroup internal) (iName v) (iKind internal), sv))"

definition v1_entry ::
  "('b, 'c, 'd, 'q, 's, 'v) SchemaEnv \<Rightarrow> 'd CustomResourceDefinition \<Rightarrow>
     'd CustomResourceDefinitionVersion \<Rightarrow> (GroupVersionKind \<times> 'v) option" where
  "v1_entry env c v =
     (case Schema v of
        None \<Rightarrow> None
      | Some cv \<Rightarrow>
          (case OpenAPIV3Schema cv of
             None \<Rightarrow> None
           | Some props \<Rightarrow>
               (case newV1SchemaValidator env props of
                  Inl err \<Rightarrow> None
                | Inr (sv, _) \<Rightarrow> Some (gvk (Group c) (Name v) (Kind c), sv))))"

definition xrd_entry ::
  "('b, 'c, 'd, 'q, 's, 'v) SchemaEnv \<Rightarrow> CompositeResourceDefinition \<Rightarrow>
     CompositeResourceDefinitionVersion \<Rightarrow> (GroupVersionKind \<times> 'v) option" where
  "xrd_entry env x v =
     (case xSchemaRaw v of
        None \<Rightarrow> None
      | Some raw \<Rightarrow>
          (case json_Unmarshal env raw of
             Inl err \<Rightarrow> None
           | Inr props \<Rightarrow>
               (case newV1SchemaValidator env props of
                  Inl err \<Rightarrow> None
                | Inr (sv, _) \<Rightarrow> Some (gvk (xGroup x) (xName v) (xKind x), sv))))"

definition insertionsOfObject ::
  "('b, 'c, 'd, 'q, 's, 'v) SchemaEnv \<Rightarrow> ('b, 'd) Object \<Rightarrow> (GroupVersionKind \<times> 'v) list option" where
  "insertionsOfObject env o' =
     (case o' of
        V1Beta1CRD c \<Rightarrow>
          (case Convert_v1beta1_CRD env c of
             Inl err \<Rightarrow> None
           | Inr internal \<Rightarrow>
               if iValidation internal \<noteq> None then
                 (case validation_NewSchemaValidator env (iValidation internal) of
                    Inl err \<Rightarrow> None
                  | Inr sv \<Rightarrow>
                      Some (map (\<lambda>v. (gvk (iGroup internal) (iName v) (iKind internal), sv))
                              (iVersions internal)))
               else those (map (v1beta1_entry env internal) (iVersions internal)))
      | V1CRD c \<Rightarrow> those (map (v1_entry env c) (Versions c))
      | V1Beta1XRD x \<Rightarrow> those (map (xrd_entry env x) (xVersions x))
      | V1XRD x \<Rightarrow> those (map (xrd_entry env x) (xVersions x))
      | OtherObject _ \<Rightarrow> None)"

definition insertions ::
  "('b, 'c, 'd, 'q, 's, 'v) SchemaEnv \<Rightarrow> ('b, 'd) Object list \<Rightarrow> (GroupVersionKind \<times> 'v) list option" where
  "insertions env objs = map_option concat (those (map (insertionsOfObject env) objs))"


section \<open>Example collaborators\<close>

text \<open>
  Concrete collaborators on which the properties below are evaluated. Meta objects
  are their kind names and convert to a package description without dependencies; the
  walk, the decoded meta objects and the decoded body objects are given; both linters
  accept. Schema documents and validators are strings: a validator is the document it
  was built from, the conversions are the identity, decoding fails on a lone opening
  brace, and a legacy definition is given by its internal representation.
\<close>

definition exampleCollaborators ::
  "(string \<times> FileInfo \<times> error option) list \<Rightarrow> string list \<Rightarrow> ('b, 'd) Object list \<Rightarrow>
     (unit, unit, unit, string, ('b, 'd) Object) Collaborators" where
  "exampleCollaborators calls metas objs =
     \<lparr>Walk = (\<lambda>fs dir. calls),
      ImageDigest = (\<lambda>i. Inr ''sha256:0a1b''),
      OpenStreamFile = (\<lambda>i. Inr ()),
      Parse = (\<lambda>reader. Inr \<lparr>GetMeta = metas, GetObjects = objs\<rparr>),
      GetKind = (\<lambda>m. m),
      ConfigurationLinter = (\<lambda>pkg. None),
      ProviderLinter = (\<lambda>pkg. None),
      TryConvertToPkg = (\<lambda>m. Some [])\<rparr>"

definition exampleSchemaEnv ::
  "(string InternalCRD, string, string, string, string, string) SchemaEnv" where
  "exampleSchemaEnv =
     \<lparr>Convert_v1beta1_CRD = (\<lambda>c. Inr c),
      validation_NewSchemaValidator = (\<lambda>c. case c of None \<Rightarrow> Inr [] | Some s \<Rightarrow> Inr s),
      json_Unmarshal = (\<lambda>raw. if raw = ''{'' then Inl (New ''unexpected end of JSON input'') else Inr raw),
      Convert_v1_JSONSchemaProps = (\<lambda>d. Inr d),
      ConvertJSONSchemaPropsWithPostProcess = (\<lambda>q. Inr q),
      validate_NewSchemaValidator = (\<lambda>s. s)\<rparr>"


text \<open>
  A legacy definition with a top-level validation and one version, with a schema of
  its own, for each of the given names; in the example collaborators it is its own
  internal representation.
\<close>

definition exampleLegacyCRD :: "string list \<Rightarrow> string InternalCRD" where
  "exampleLegacyCRD names =
     \<lparr>iGroup = ''example.org'', iKind = ''Widget'', iValidation = Some ''top'',
      iVersions = map (\<lambda>n. \<lparr>iName = n, iSchema = Some (''schema of '' @ n)\<rparr>) names\<rparr>"

text \<open>
  The calls of a walk over a package directory: the directory itself, two manifest
  files, two digest marker files and a directory named like a digest marker.
\<close>

definition exampleWalk :: "(string \<times> FileInfo \<times> error option) list" where
  "exampleWalk =
     [(''pkg@v1.2.3'', \<lparr>IsDir = True\<rparr>, None),
      (''pkg@v1.2.3/crd.yaml'', \<lparr>IsDir = False\<rparr>, None),
      (''pkg@v1.2.3/sha256:aaa'', \<lparr>IsDir = False\<rparr>, None),
      (''pkg@v1.2.3/sha256:bbb'', \<lparr>IsDir = False\<rparr>, None),
      (''pkg@v1.2.3/sha256:ccc'', \<lparr>IsDir = True\<rparr>, None),
      (''pkg@v1.2.3/xrd.yaml'', \<lparr>IsDir = False\<rparr>, None)]"


section \<open>Properties\<close>

subsection \<open>Splitting a path at the separator\<close>

lemma strings_Split_nonempty: "strings_Split s c \<noteq> []"
  by (induction s) (auto split: list.splits)

lemma length_strings_Split:
  "length (strings_Split s c) = Suc (length (filter (\<lambda>x. x = c) s))"
  by (induction s) (auto split: list.splits simp: strings_Split_nonempty)

lemma strings_Split_no_sep: "c \<notin> set s \<Longrightarrow> strings_Split s c = [s]"
  by (induction s) auto

lemma strings_Split_append:
  "c \<notin> set d \<Longrightarrow> strings_Split (d @ c # v) c = d # strings_Split v c"
  by (induction d) (auto split: list.splits simp: strings_Split_nonempty)

lemma strings_Split_two:
  "length (strings_Split s c) = 2 \<longleftrightarrow> (\<exists>d v. s = d @ c # v \<and> c \<notin> set d \<and> c \<notin> set v)"
proof
  assume "length (strings_Split s c) = 2"
  then have one: "length (filter (\<lambda>x. x = c) s) = 1"
    by (simp add: length_strings_Split)
  have "c \<in> set s"
  proof (rule ccontr)
    assume "c \<notin> set s"
    then have "filter (\<lambda>x. x = c) s = []"
      by (auto simp: filter_empty_conv)
    with one show False by simp
  qed
  then obtain d v where s: "s = d @ c # v" and d: "c \<notin> set d"
    by (auto dest!: split_list_first)
  from d have "filter (\<lambda>x. x = c) d = []"
    by (auto simp: filter_empty_conv)
  with one s have "filter (\<lambda>x. x = c) v = []"
    by simp
  then have "c \<notin> set v"
    by (auto simp: filter_empty_conv)
  with s d show "\<exists>d v. s = d @ c # v \<and> c \<notin> set d \<and> c \<notin> set v"
    by blast
next
  assume "\<exists>d v. s = d @ c # v \<and> c \<notin> set d \<and> c \<notin> set v"
  then show "length (strings_Split s c) = 2"
    by (auto simp: strings_Split_append strings_Split_no_sep)
qed


subsection \<open>Package name\<close>

text \<open>
  C8. The derived package name is the repository path when the registry is the
  default public registry host \<open>index.docker.io\<close>, and registry, slash, repository
  path for every other registry string.
\<close>

theorem derivePkgName_spec:
  "derivePkgName registry repoPath =
     (if registry = ''index.docker.io'' then repoPath else registry @ ''/'' @ repoPath)"
  by (simp add: derivePkgName_def dockerhub_def)

theorem derivePkgName_spec_witness:
  "derivePkgName ''index.docker.io'' ''myrepo'' = ''myrepo'' \<and>
   derivePkgName ''xpkg.upbound.io'' ''myrepo'' = ''xpkg.upbound.io/myrepo''"
  using derivePkgName_spec [of "''index.docker.io''" "''myrepo''"]
        derivePkgName_spec [of "''xpkg.upbound.io''" "''myrepo''"]
  by simp


subsection \<open>Dependency extraction\<close>

lemma convertToV1beta1_cases:
  "convertToV1beta1 d =
     (case (Provider d, Configuration d) of
        (Some p, None) \<Rightarrow> \<lparr>Package = p, Type = ProviderPackageType, Constraints = Version d\<rparr>
      | (None, Some c) \<Rightarrow> \<lparr>Package = c, Type = ConfigurationPackageType, Constraints = Version d\<rparr>
      | _ \<Rightarrow> \<lparr>Package = [], Type = [], Constraints = Version d\<rparr>)"
  by (simp add: convertToV1beta1_def Let_def split: option.splits)

text \<open>
  C2. For every source dependency list (of a meta object that converts to a package
  description), the extractor returns a list of the same length and order, nothing
  removed, computed entry by entry: with only the provider reference set the entry is
  package = provider reference, type = Provider, constraint = version field; with only
  the configuration reference set it is package = configuration reference, type =
  Configuration, constraint = version field; with both or neither set the package
  reference is empty and the type unset, the constraint still copied.
\<close>

theorem determineDeps_elementwise:
  assumes "tryConvertToPkg m = Some deps"
  shows "\<exists>out. determineDeps tryConvertToPkg m = Inr out \<and> length out = length deps \<and>
     (\<forall>i<length deps.
        (\<forall>p. Provider (deps ! i) = Some p \<and> Configuration (deps ! i) = None \<longrightarrow>
           out ! i = \<lparr>Package = p, Type = ProviderPackageType, Constraints = Version (deps ! i)\<rparr>) \<and>
        (\<forall>c. Configuration (deps ! i) = Some c \<and> Provider (deps ! i) = None \<longrightarrow>
           out ! i = \<lparr>Package = c, Type = ConfigurationPackageType, Constraints = Version (deps ! i)\<rparr>) \<and>
        ((Provider (deps ! i) = None) = (Configuration (deps ! i) = None) \<longrightarrow>
           out ! i = \<lparr>Package = [], Type = [], Constraints = Version (deps ! i)\<rparr>))"
  using assms by (auto simp: determineDeps_def convertToV1beta1_cases split: option.splits)

theorem determineDeps_elementwise_witness:
  "determineDeps (\<lambda>m. if m = ''meta'' then
       Some [\<lparr>Provider = Some ''p'', Configuration = None, Version = ''>=1''\<rparr>,
             \<lparr>Provider = None, Configuration = Some ''c'', Version = ''>=2''\<rparr>,
             \<lparr>Provider = Some ''p'', Configuration = Some ''c'', Version = ''>=3''\<rparr>,
             \<lparr>Provider = None, Configuration = None, Version = ''>=4''\<rparr>,
             \<lparr>Provider = Some ''p'', Configuration = None, Version = ''>=1''\<rparr>] else None) ''meta''
   = Inr [\<lparr>Package = ''p'', Type = ''Provider'', Constraints = ''>=1''\<rparr>,
          \<lparr>Package = ''c'', Type = ''Configuration'', Constraints = ''>=2''\<rparr>,
          \<lparr>Package = [], Type = [], Constraints = ''>=3''\<rparr>,
          \<lparr>Package = [], Type = [], Constraints = ''>=4''\<rparr>,
          \<lparr>Package = ''p'', Type = ''Provider'', Constraints = ''>=1''\<rparr>]"
  using determineDeps_elementwise [of "\<lambda>m. if m = ''meta'' then
       Some [\<lparr>Provider = Some ''p'', Configuration = None, Version = ''>=1''\<rparr>,
             \<lparr>Provider = None, Configuration = Some ''c'', Version = ''>=2''\<rparr>,
             \<lparr>Provider = Some ''p'', Configuration = Some ''c'', Version = ''>=3''\<rparr>,
             \<lparr>Provider = None, Configuration = None, Version = ''>=4''\<rparr>,
             \<lparr>Provider = Some ''p'', Configuration = None, Version = ''>=1''\<rparr>] else None" "''meta''"]
  by (simp add: determineDeps_def convertToV1beta1_def ProviderPackageType_def ConfigurationPackageType_def)


subsection \<open>Classification\<close>

text \<open>
  C4. For a decoded package with exactly one meta object the classification depends
  on the kind of that object alone: kind \<open>Configuration\<close> gives the Configuration
  package type and the verdict of the Configuration linter, every other kind gives the
  Provider package type and the verdict of the Provider linter.
\<close>

theorem parse_classification:
  assumes "Parse r reader = Inr pkg" and "GetMeta pkg = [meta]"
  shows "(GetKind r meta = ''Configuration'' \<longrightarrow>
            parse r reader =
              (case ConfigurationLinter r pkg of
                 Some err \<Rightarrow> Inl (Wrap err errLintPackage)
               | None \<Rightarrow>
                   Inr \<lparr>MetaObj = meta, Objs = GetObjects pkg, PType = ConfigurationPackageType,
                        Deps = [], GVKtoV = Map.empty, DepName = [], Reg = [], SHA = [], Ver = []\<rparr>)) \<and>
         (GetKind r meta \<noteq> ''Configuration'' \<longrightarrow>
            parse r reader =
              (case ProviderLinter r pkg of
                 Some err \<Rightarrow> Inl (Wrap err errLintPackage)
               | None \<Rightarrow>
                   Inr \<lparr>MetaObj = meta, Objs = GetObjects pkg, PType = ProviderPackageType,
                        Deps = [], GVKtoV = Map.empty, DepName = [], Reg = [], SHA = [], Ver = []\<rparr>))"
  using assms by (simp add: parse_def ConfigurationKind_def)

theorem parse_classification_witness:
  "parse ((exampleCollaborators [] [''Configuration''] [])
            \<lparr>ProviderLinter := (\<lambda>pkg. Some (New ''provider lint''))\<rparr>) (StreamFile ())
     = Inr \<lparr>MetaObj = ''Configuration'', Objs = ([] :: (string InternalCRD, string) Object list),
            PType = ''Configuration'', Deps = [], GVKtoV = (Map.empty :: string Index),
            DepName = [], Reg = [], SHA = [], Ver = []\<rparr> \<and>
   parse ((exampleCollaborators [] [''Function''] [])
            \<lparr>ConfigurationLinter := (\<lambda>pkg. Some (New ''configuration lint''))\<rparr>) (StreamFile ())
     = Inr \<lparr>MetaObj = ''Function'', Objs = ([] :: (string InternalCRD, string) Object list),
            PType = ''Provider'', Deps = [], GVKtoV = (Map.empty :: string Index),
            DepName = [], Reg = [], SHA = [], Ver = []\<rparr> \<and>
   (parse ((exampleCollaborators [] [''Function''] ([] :: (string InternalCRD, string) Object list))
            \<lparr>ProviderLinter := (\<lambda>pkg. Some (New ''provider lint''))\<rparr>) (StreamFile ())
      :: error + (string, (string InternalCRD, string) Object, string) ParsedPackage)
     = Inl (Wrap (New ''provider lint'') ''failed to lint package'')"
  using
    parse_classification [of "(exampleCollaborators [] [''Configuration''] [])
            \<lparr>ProviderLinter := (\<lambda>pkg. Some (New ''provider lint''))\<rparr>" "StreamFile ()"
        "\<lparr>GetMeta = [''Configuration''], GetObjects = []\<rparr>" "''Configuration''"]
    parse_classification [of "(exampleCollaborators [] [''Function''] [])
            \<lparr>ConfigurationLinter := (\<lambda>pkg. Some (New ''configuration lint''))\<rparr>" "StreamFile ()"
        "\<lparr>GetMeta = [''Function''], GetObjects = []\<rparr>" "''Function''"]
    parse_classification [of "(exampleCollaborators [] [''Function''] [])
            \<lparr>ProviderLinter := (\<lambda>pkg. Some (New ''provider lint''))\<rparr>" "StreamFile ()"
        "\<lparr>GetMeta = [''Function''], GetObjects = []\<rparr>" "''Function''"]
  by (simp add: exampleCollaborators_def ConfigurationPackageType_def ProviderPackageType_def
        errLintPackage_def)

text \<open>
  C5. When the decoded package has no meta object or more than one, \<open>parse\<close>, and
  with it a marshal call from an image or from a directory, fails with
  \<open>errNotExactlyOneMeta\<close> and returns no package. Nothing is assumed of the linters,
  of the conversion of the meta object or of the schema collaborators, so none of them
  has a say in the result.
\<close>

theorem marshal_not_exactly_one_meta:
  fixes env :: "('b, 'c, 'd, 'q, 's, 'v) SchemaEnv"
  assumes "Parse r reader = Inr pkg" and "length (GetMeta pkg) \<noteq> 1"
  shows "(parse r reader :: error + ('m, ('b, 'd) Object, 'v) ParsedPackage) =
           Inl (New errNotExactlyOneMeta) \<and>
         (ImageDigest r i = Inr digest \<and> OpenStreamFile r i = Inr h \<and> reader = StreamFile h \<longrightarrow>
            FromImage r env reg repo ver i = Inl (Returned (New errNotExactlyOneMeta))) \<and>
         (length (strings_Split path CHR ''@'') = 2 \<and>
          NewFsReadCloser r fs path [SkipDirs, skipDigest] [] = (Inr reader, digest) \<longrightarrow>
            FromDir r env fs path reg repo = Inl (Returned (New errNotExactlyOneMeta)))"
proof -
  have p: "\<And>x. parse r reader = Inl (New errNotExactlyOneMeta)"
    using assms by (simp add: parse_def)
  show ?thesis
    using assms by (auto simp: parse_def FromImage_def FromDir_def)
qed

theorem marshal_not_exactly_one_meta_witness:
  "FromImage ((exampleCollaborators [] [] [])
                \<lparr>ProviderLinter := (\<lambda>pkg. Some (New ''provider lint'')),
                 TryConvertToPkg := (\<lambda>m. None)\<rparr>)
       exampleSchemaEnv ''xpkg.upbound.io'' ''acme/pkg'' ''v1.2.3'' ()
     = Inl (Returned (New ''not exactly one package meta type'')) \<and>
   FromDir (exampleCollaborators [] [''Provider'', ''Configuration''] [OtherObject ''Deployment''])
       exampleSchemaEnv () ''pkg@v1.2.3'' ''xpkg.upbound.io'' ''acme/pkg''
     = Inl (Returned (New ''not exactly one package meta type''))"
proof -
  let ?r0 = "(exampleCollaborators [] [] [])
                \<lparr>ProviderLinter := (\<lambda>pkg. Some (New ''provider lint'')),
                 TryConvertToPkg := (\<lambda>m. None)\<rparr> ::
              (unit, unit, unit, string, (string InternalCRD, string) Object) Collaborators"
  let ?r2 = "exampleCollaborators [] [''Provider'', ''Configuration''] [OtherObject ''Deployment''] ::
              (unit, unit, unit, string, (string InternalCRD, string) Object) Collaborators"
  have zero: "Parse ?r0 (StreamFile ()) = Inr \<lparr>GetMeta = [], GetObjects = []\<rparr> \<and>
              length (GetMeta \<lparr>GetMeta = ([] :: string list),
                 GetObjects = ([] :: (string InternalCRD, string) Object list)\<rparr>) \<noteq> 1 \<and>
              ImageDigest ?r0 () = Inr ''sha256:0a1b'' \<and> OpenStreamFile ?r0 () = Inr ()"
    by (simp add: exampleCollaborators_def)
  have two: "Parse ?r2 (FsReadCloser () ''pkg@v1.2.3'' []) =
                Inr \<lparr>GetMeta = [''Provider'', ''Configuration''],
                     GetObjects = [OtherObject ''Deployment'']\<rparr> \<and>
             length (GetMeta \<lparr>GetMeta = [''Provider'', ''Configuration''],
                 GetObjects = [OtherObject ''Deployment'' :: (string InternalCRD, string) Object]\<rparr>) \<noteq> 1 \<and>
             length (strings_Split ''pkg@v1.2.3'' CHR ''@'') = 2 \<and>
             NewFsReadCloser ?r2 () ''pkg@v1.2.3'' [SkipDirs, skipDigest] [] =
               (Inr (FsReadCloser () ''pkg@v1.2.3'' []), [])"
    by (simp add: exampleCollaborators_def NewFsReadCloser_def)
  show ?thesis
    using
      marshal_not_exactly_one_meta [where r = ?r0 and reader = "StreamFile ()"
        and pkg = "\<lparr>GetMeta = [], GetObjects = []\<rparr>" and i = "()" and digest = "''sha256:0a1b''"
        and h = "()" and env = exampleSchemaEnv and reg = "''xpkg.upbound.io''"
        and repo = "''acme/pkg''" and ver = "''v1.2.3''" and path = "[]" and fs = "()"]
      marshal_not_exactly_one_meta [where r = ?r2
        and reader = "FsReadCloser () ''pkg@v1.2.3'' []"
        and pkg = "\<lparr>GetMeta = [''Provider'', ''Configuration''],
                    GetObjects = [OtherObject ''Deployment'']\<rparr>"
        and path = "''pkg@v1.2.3''" and fs = "()" and digest = "[]" and env = exampleSchemaEnv
        and reg = "''xpkg.upbound.io''" and repo = "''acme/pkg''" and i = "()" and h = "()"
        and ver = "[]"]
      zero two
    by (simp add: errNotExactlyOneMeta_def)
qed


subsection \<open>Directory paths\<close>

lemma finalizePkg_Ver:
  "finalizePkg r env reg repo ver digest pkg = Inr out \<Longrightarrow>
     Ver out = ver \<and> SHA out = digest \<and> Reg out = reg \<and> DepName out = derivePkgName reg repo"
  by (auto simp: finalizePkg_def split: sum.splits)

text \<open>
  C6. In directory mode a path that is not a directory part, one \<open>@\<close> and a version
  tag (neither part containing \<open>@\<close>; either part may be empty) fails with
  \<open>errInvalidPath\<close> whatever the file system holds. A path of that form passes the
  check: the call goes on to read the directory, and a package it returns has the part
  after the \<open>@\<close> as its version.
\<close>

theorem FromDir_path_check:
  "(\<not> (\<exists>d v. path = d @ ''@'' @ v \<and> CHR ''@'' \<notin> set d \<and> CHR ''@'' \<notin> set v) \<longrightarrow>
      FromDir r env fs path reg repo = Inl (Returned (New errInvalidPath))) \<and>
   (CHR ''@'' \<notin> set d \<and> CHR ''@'' \<notin> set v \<longrightarrow>
      FromDir r env fs (d @ ''@'' @ v) reg repo =
        (case NewFsReadCloser r fs (d @ ''@'' @ v) [SkipDirs, skipDigest] [] of
           (Inl err, digest) \<Rightarrow> Inl (Returned err)
         | (Inr reader, digest) \<Rightarrow>
             (case parse r reader of
                Inl err \<Rightarrow> Inl (Returned err)
              | Inr pkg \<Rightarrow> finalizePkg r env reg repo v digest pkg)) \<and>
      (\<forall>out. FromDir r env fs (d @ ''@'' @ v) reg repo = Inr out \<longrightarrow> Ver out = v))"
proof (intro conjI impI)
  assume "\<not> (\<exists>d v. path = d @ ''@'' @ v \<and> CHR ''@'' \<notin> set d \<and> CHR ''@'' \<notin> set v)"
  then have "length (strings_Split path CHR ''@'') \<noteq> 2"
    by (simp add: strings_Split_two)
  then show "FromDir r env fs path reg repo = Inl (Returned (New errInvalidPath))"
    by (simp add: FromDir_def)
next
  assume dv: "CHR ''@'' \<notin> set d \<and> CHR ''@'' \<notin> set v"
  then have split: "strings_Split (d @ ''@'' @ v) CHR ''@'' = [d, v]"
    by (simp add: strings_Split_append strings_Split_no_sep)
  show eq: "FromDir r env fs (d @ ''@'' @ v) reg repo =
        (case NewFsReadCloser r fs (d @ ''@'' @ v) [SkipDirs, skipDigest] [] of
           (Inl err, digest) \<Rightarrow> Inl (Returned err)
         | (Inr reader, digest) \<Rightarrow>
             (case parse r reader of
                Inl err \<Rightarrow> Inl (Returned err)
              | Inr pkg \<Rightarrow> finalizePkg r env reg repo v digest pkg))"
    unfolding FromDir_def Let_def split by (simp split: prod.splits sum.splits)
  show "\<forall>out. FromDir r env fs (d @ ''@'' @ v) reg repo = Inr out \<longrightarrow> Ver out = v"
    unfolding eq by (auto split: prod.splits sum.splits dest: finalizePkg_Ver)
qed

theorem FromDir_path_check_witness:
  "FromDir (exampleCollaborators [] [''Provider''] []) exampleSchemaEnv () ''foo@v1.2.3''
       ''xpkg.upbound.io'' ''acme/pkg''
     = Inr \<lparr>MetaObj = ''Provider'', Objs = [], PType = ''Provider'', Deps = [],
            GVKtoV = Map.empty, DepName = ''xpkg.upbound.io/acme/pkg'',
            Reg = ''xpkg.upbound.io'', SHA = [], Ver = ''v1.2.3''\<rparr> \<and>
   FromDir (exampleCollaborators [] [''Provider''] []) exampleSchemaEnv () ''foo''
       ''xpkg.upbound.io'' ''acme/pkg''
     = Inl (Returned (New ''invalid path provided for package lookup'')) \<and>
   FromDir (exampleCollaborators [] [''Provider''] []) exampleSchemaEnv () ''foo@v1@v2''
       ''xpkg.upbound.io'' ''acme/pkg''
     = Inl (Returned (New ''invalid path provided for package lookup''))"
proof -
  let ?r = "exampleCollaborators [] [''Provider''] [] ::
              (unit, unit, unit, string, (string InternalCRD, string) Object) Collaborators"
  have ok: "CHR ''@'' \<notin> set ''foo'' \<and> CHR ''@'' \<notin> set ''v1.2.3''"
    by simp
  have bad1: "\<not> (\<exists>d v. ''foo'' = d @ ''@'' @ v \<and> CHR ''@'' \<notin> set d \<and> CHR ''@'' \<notin> set v)"
    using strings_Split_two [of "''foo''" "CHR ''@''"] by simp
  have bad2: "\<not> (\<exists>d v. ''foo@v1@v2'' = d @ ''@'' @ v \<and> CHR ''@'' \<notin> set d \<and> CHR ''@'' \<notin> set v)"
    using strings_Split_two [of "''foo@v1@v2''" "CHR ''@''"] by simp
  show ?thesis
    using FromDir_path_check [of "''foo''" ?r exampleSchemaEnv "()" "''xpkg.upbound.io''" "''acme/pkg''"
            "''foo''" "''v1.2.3''"]
          FromDir_path_check [of "''foo@v1@v2''" ?r exampleSchemaEnv "()" "''xpkg.upbound.io''" "''acme/pkg''"
            "''foo''" "''v1.2.3''"]
          ok bad1 bad2
    by (simp add: exampleCollaborators_def NewFsReadCloser_def parse_def finalizePkg_def Let_def
          determineDeps_def derivePkgName_def dockerhub_def ConfigurationKind_def
          ProviderPackageType_def errInvalidPath_def)
qed

subsection \<open>The digest marker of a directory\<close>

lemma applyFilters_dir_mode:
  "applyFilters [SkipDirs, skipDigest] path info digest =
     (if IsDir info then (Inr True, digest)
      else if strings_HasPrefix (filepath_Base path) digestPrefix
           then (Inr True, filepath_Base path)
           else (Inr False, digest))"
  by (simp add: SkipDirs_def skipDigest_def Let_def)

lemma walkPaths_dir_mode:
  assumes "\<forall>c \<in> set calls. snd (snd c) = None"
  shows "walkPaths [SkipDirs, skipDigest] calls paths digest =
     (let files = map fst (filter (\<lambda>c. \<not> IsDir (fst (snd c))) calls);
          matching = filter (\<lambda>p. strings_HasPrefix (filepath_Base p) digestPrefix) files
      in (Inr (paths @ filter (\<lambda>p. \<not> strings_HasPrefix (filepath_Base p) digestPrefix) files),
          if matching = [] then digest else filepath_Base (last matching)))"
  using assms
proof (induction calls arbitrary: paths digest)
  case Nil
  then show ?case by simp
next
  case (Cons c calls)
  obtain path info err where c: "c = (path, info, err)"
    by (cases c) auto
  with Cons.prems have err: "err = None" and rest: "\<forall>c \<in> set calls. snd (snd c) = None"
    by auto
  show ?case
    unfolding c err
    by (simp add: applyFilters_dir_mode Cons.IH [OF rest] Let_def del: applyFilters.simps)
qed

text \<open>
  C10. In directory mode, when the walk reaches every path without error, the reader
  handed to the parser holds the files (not directories) whose base name does not begin
  with \<open>sha256:\<close>, so every file whose base name does is left out; the digest is the
  base name of the last such file in the order of the walk, and the empty string when
  there is none. The digest is stored in the package and has no say in whether the call
  succeeds: with no such file the call goes on as with one.
\<close>

theorem FromDir_digest:
  assumes "length (strings_Split path CHR ''@'') = 2"
    and "\<forall>c \<in> set (Walk r fs path). snd (snd c) = None"
  shows
    "let files = map fst (filter (\<lambda>c. \<not> IsDir (fst (snd c))) (Walk r fs path));
         matching = filter (\<lambda>p. strings_HasPrefix (filepath_Base p) digestPrefix) files;
         stream = filter (\<lambda>p. \<not> strings_HasPrefix (filepath_Base p) digestPrefix) files;
         digest = (if matching = [] then [] else filepath_Base (last matching))
     in NewFsReadCloser r fs path [SkipDirs, skipDigest] [] = (Inr (FsReadCloser fs path stream), digest) \<and>
        FromDir r env fs path reg repo =
          (case parse r (FsReadCloser fs path stream) of
             Inl err \<Rightarrow> Inl (Returned err)
           | Inr pkg \<Rightarrow> finalizePkg r env reg repo (strings_Split path CHR ''@'' ! 1) digest pkg) \<and>
        (\<forall>out. FromDir r env fs path reg repo = Inr out \<longrightarrow> SHA out = digest)"
proof -
  let ?files = "map fst (filter (\<lambda>c. \<not> IsDir (fst (snd c))) (Walk r fs path))"
  let ?matching = "filter (\<lambda>p. strings_HasPrefix (filepath_Base p) digestPrefix) ?files"
  let ?stream = "filter (\<lambda>p. \<not> strings_HasPrefix (filepath_Base p) digestPrefix) ?files"
  let ?digest = "if ?matching = [] then [] else filepath_Base (last ?matching)"
  have new: "NewFsReadCloser r fs path [SkipDirs, skipDigest] [] =
               (Inr (FsReadCloser fs path ?stream), ?digest)"
    unfolding NewFsReadCloser_def walkPaths_dir_mode [OF assms(2)] Let_def by simp
  have dir: "FromDir r env fs path reg repo =
          (case parse r (FsReadCloser fs path ?stream) of
             Inl err \<Rightarrow> Inl (Returned err)
           | Inr pkg \<Rightarrow> finalizePkg r env reg repo (strings_Split path CHR ''@'' ! 1) ?digest pkg)"
    unfolding FromDir_def Let_def new using assms(1) by simp
  have sha: "\<forall>out. FromDir r env fs path reg repo = Inr out \<longrightarrow> SHA out = ?digest"
    unfolding dir by (auto split: sum.splits dest: finalizePkg_Ver)
  show ?thesis
    unfolding Let_def using new dir sha by blast
qed

lemma exampleWalk_bases:
  "filepath_Base ''pkg@v1.2.3/crd.yaml'' = ''crd.yaml'' \<and>
   filepath_Base ''pkg@v1.2.3/sha256:aaa'' = ''sha256:aaa'' \<and>
   filepath_Base ''pkg@v1.2.3/sha256:bbb'' = ''sha256:bbb'' \<and>
   filepath_Base ''pkg@v1.2.3/xrd.yaml'' = ''xrd.yaml''"
  by (simp add: filepath_Base_def)

theorem FromDir_digest_witness:
  "NewFsReadCloser (exampleCollaborators exampleWalk [''Provider'']
         ([] :: (string InternalCRD, string) Object list)) () ''pkg@v1.2.3''
       [SkipDirs, skipDigest] []
     = (Inr (FsReadCloser () ''pkg@v1.2.3'' [''pkg@v1.2.3/crd.yaml'', ''pkg@v1.2.3/xrd.yaml'']),
        ''sha256:bbb'') \<and>
   FromDir (exampleCollaborators exampleWalk [''Provider''] []) exampleSchemaEnv () ''pkg@v1.2.3''
       ''index.docker.io'' ''acme/pkg''
     = Inr \<lparr>MetaObj = ''Provider'', Objs = [], PType = ''Provider'', Deps = [],
            GVKtoV = Map.empty, DepName = ''acme/pkg'', Reg = ''index.docker.io'',
            SHA = ''sha256:bbb'', Ver = ''v1.2.3''\<rparr> \<and>
   FromDir (exampleCollaborators [(''pkg@v1.2.3/crd.yaml'', \<lparr>IsDir = False\<rparr>, None)] [''Provider''] [])
       exampleSchemaEnv () ''pkg@v1.2.3'' ''index.docker.io'' ''acme/pkg''
     = Inr \<lparr>MetaObj = ''Provider'', Objs = [], PType = ''Provider'', Deps = [],
            GVKtoV = Map.empty, DepName = ''acme/pkg'', Reg = ''index.docker.io'',
            SHA = [], Ver = ''v1.2.3''\<rparr>"
proof -
  let ?r = "exampleCollaborators exampleWalk [''Provider''] [] ::
              (unit, unit, unit, string, (string InternalCRD, string) Object) Collaborators"
  let ?r1 = "exampleCollaborators [(''pkg@v1.2.3/crd.yaml'', \<lparr>IsDir = False\<rparr>, None)] [''Provider''] [] ::
              (unit, unit, unit, string, (string InternalCRD, string) Object) Collaborators"
  have path: "length (strings_Split ''pkg@v1.2.3'' CHR ''@'') = 2"
    by simp
  have walk: "\<forall>c \<in> set (Walk ?r () ''pkg@v1.2.3''). snd (snd c) = None"
    by (simp add: exampleCollaborators_def exampleWalk_def)
  have walk1: "\<forall>c \<in> set (Walk ?r1 () ''pkg@v1.2.3''). snd (snd c) = None"
    by (simp add: exampleCollaborators_def)
  show ?thesis
    using FromDir_digest [OF path walk, of exampleSchemaEnv "''index.docker.io''" "''acme/pkg''"]
          FromDir_digest [OF path walk1, of exampleSchemaEnv "''index.docker.io''" "''acme/pkg''"]
    by (simp add: Let_def exampleCollaborators_def exampleWalk_def exampleWalk_bases
          strings_HasPrefix_def digestPrefix_def parse_def finalizePkg_def determineDeps_def
          derivePkgName_def dockerhub_def ConfigurationKind_def ProviderPackageType_def
          filepath_Base_def)
qed

subsection \<open>The builder and the sequence of its insertions\<close>

lemma insertAll_Nil [simp]: "insertAll [] acc = acc"
  by (simp add: insertAll_def)

lemma insertAll_Cons [simp]: "insertAll (e # ps) acc = insertAll ps (acc(fst e \<mapsto> snd e))"
  by (simp add: insertAll_def)

lemma insertAll_append [simp]: "insertAll (ps @ qs) acc = insertAll qs (insertAll ps acc)"
  by (simp add: insertAll_def)

lemma insertAll_lookup:
  "insertAll ps acc k =
     (case filter (\<lambda>e. fst e = k) ps of [] \<Rightarrow> acc k | e # es \<Rightarrow> Some (snd (last (e # es))))"
  by (induction ps arbitrary: acc) (auto split: list.splits)

lemma v1_versions_insertions:
  "v1_versions env c vs acc = Inr acc' \<longleftrightarrow>
     (\<exists>ps. those (map (v1_entry env c) vs) = Some ps \<and>
           acc' = insertAll ps acc)"
  by (induction vs arbitrary: acc)
     (auto simp: v1_entry_def split: option.splits sum.splits prod.splits)

lemma xrd_versions_insertions:
  "xrd_versions env x vs acc = Inr acc' \<longleftrightarrow>
     (\<exists>ps. those (map (xrd_entry env x) vs) = Some ps \<and>
           acc' = insertAll ps acc)"
  by (induction vs arbitrary: acc)
     (auto simp: xrd_entry_def split: option.splits sum.splits prod.splits)

lemma v1beta1_versions_insertions:
  "v1beta1_versions env internal vs acc = Inr acc' \<longleftrightarrow>
     (\<exists>ps. those (map (v1beta1_entry env internal) vs) = Some ps \<and>
           acc' = insertAll ps acc)"
  by (induction vs arbitrary: acc)
     (auto simp: v1beta1_entry_def split: option.splits sum.splits prod.splits)

lemma fold_same_validator:
  "fold (\<lambda>v a. a(key v \<mapsto> sv)) vs acc =
     insertAll (map (\<lambda>v. (key v, sv)) vs) acc"
  by (induction vs arbitrary: acc) auto

lemma validatorsFromObject_insertions:
  "validatorsFromObject env ob acc = Inr acc' \<longleftrightarrow>
     (\<exists>ps. insertionsOfObject env ob = Some ps \<and>
           acc' = insertAll ps acc)"
proof (cases ob)
  case (V1Beta1CRD c)
  then show ?thesis
    by (auto simp: validatorsFromObject_def insertionsOfObject_def validatorsFromV1Beta1CRD_def
          v1beta1_versions_insertions fold_same_validator split: sum.splits)
next
  case (V1CRD c)
  then show ?thesis
    by (simp add: validatorsFromObject_def insertionsOfObject_def validatorsFromV1CRD_def
          v1_versions_insertions)
next
  case (V1Beta1XRD x)
  then show ?thesis
    by (simp add: validatorsFromObject_def insertionsOfObject_def validatorsFromV1Beta1XRD_def
          xrd_versions_insertions)
next
  case (V1XRD x)
  then show ?thesis
    by (simp add: validatorsFromObject_def insertionsOfObject_def validatorsFromV1XRD_def
          xrd_versions_insertions)
next
  case (OtherObject n)
  then show ?thesis
    by (simp add: validatorsFromObject_def insertionsOfObject_def)
qed

lemma validatorsFromObjects_insertions:
  "validatorsFromObjects env objs acc = Inr acc' \<longleftrightarrow>
     (\<exists>ps. insertions env objs = Some ps \<and>
           acc' = insertAll ps acc)"
proof (induction objs arbitrary: acc)
  case Nil
  then show ?case by (auto simp: insertions_def)
next
  case (Cons ob objs)
  show ?case
  proof (cases "validatorsFromObject env ob acc")
    case (Inl f)
    then have "insertionsOfObject env ob = None"
      using validatorsFromObject_insertions [of env ob acc] by (cases "insertionsOfObject env ob") auto
    with Inl show ?thesis by (simp add: insertions_def)
  next
    case (Inr acc1)
    then obtain ps where ps: "insertionsOfObject env ob = Some ps"
      and acc1: "acc1 = insertAll ps acc"
      using validatorsFromObject_insertions [of env ob acc acc1] by auto
    show ?thesis
      using Inr ps acc1 Cons.IH [of acc1]
      by (auto simp: insertions_def split: option.splits)
  qed
qed

lemma finalizePkg_GVKtoV:
  "finalizePkg r env reg repo ver digest pkg = Inr out \<Longrightarrow>
     validatorsFromObjects env (Objs pkg) Map.empty = Inr (GVKtoV out)"
  by (auto simp: finalizePkg_def split: sum.splits)

text \<open>
  C7. A pass over the body objects succeeds with an index exactly when the sequence
  of its insertions exists, that is, when every schema of every object compiles; equal
  keys are no obstacle. The index then holds, for each key, the validator of the last
  pair inserted under that key, and what it held before the pass for a key that no
  pair has. The index of a package that \<open>finalizePkg\<close> returns is the index of
  such a pass from the empty index.
\<close>

theorem validators_last_write_wins:
  "((validatorsFromObjects env objs acc = Inr acc') =
     (\<exists>ps. insertions env objs = Some ps \<and>
        (\<forall>k. acc' k =
           (case filter (\<lambda>e. fst e = k) ps of
              [] \<Rightarrow> acc k
            | e # es \<Rightarrow> Some (snd (last (e # es))))))) \<and>
   (finalizePkg r env reg repo ver digest pkg = Inr out \<longrightarrow>
     (\<exists>ps. insertions env (Objs pkg) = Some ps \<and>
        (\<forall>k. GVKtoV out k =
           (case filter (\<lambda>e. fst e = k) ps of
              [] \<Rightarrow> None
            | e # es \<Rightarrow> Some (snd (last (e # es)))))))"
proof (intro conjI impI)
  show "(validatorsFromObjects env objs acc = Inr acc') =
     (\<exists>ps. insertions env objs = Some ps \<and>
        (\<forall>k. acc' k =
           (case filter (\<lambda>e. fst e = k) ps of
              [] \<Rightarrow> acc k
            | e # es \<Rightarrow> Some (snd (last (e # es))))))"
    by (simp add: validatorsFromObjects_insertions fun_eq_iff insertAll_lookup)
next
  assume "finalizePkg r env reg repo ver digest pkg = Inr out"
  then have "validatorsFromObjects env (Objs pkg) Map.empty = Inr (GVKtoV out)"
    by (rule finalizePkg_GVKtoV)
  then show "\<exists>ps. insertions env (Objs pkg) = Some ps \<and>
        (\<forall>k. GVKtoV out k =
           (case filter (\<lambda>e. fst e = k) ps of
              [] \<Rightarrow> None
            | e # es \<Rightarrow> Some (snd (last (e # es)))))"
    by (simp add: validatorsFromObjects_insertions fun_eq_iff insertAll_lookup)
qed

theorem validators_last_write_wins_witness:
  "insertions exampleSchemaEnv
     [V1CRD \<lparr>Group = ''example.org'', Kind = ''Widget'',
             Versions = [\<lparr>Name = ''v1'', Schema = Some \<lparr>OpenAPIV3Schema = Some ''a''\<rparr>\<rparr>,
                         \<lparr>Name = ''v2'', Schema = Some \<lparr>OpenAPIV3Schema = Some ''b''\<rparr>\<rparr>,
                         \<lparr>Name = ''v1'', Schema = Some \<lparr>OpenAPIV3Schema = Some ''c''\<rparr>\<rparr>]\<rparr>,
      V1XRD \<lparr>xGroup = ''example.org'', xKind = ''Widget'',
             xVersions = [\<lparr>xName = ''v2'', xSchemaRaw = Some ''d''\<rparr>]\<rparr>]
     = Some [(gvk ''example.org'' ''v1'' ''Widget'', ''a''),
             (gvk ''example.org'' ''v2'' ''Widget'', ''b''),
             (gvk ''example.org'' ''v1'' ''Widget'', ''c''),
             (gvk ''example.org'' ''v2'' ''Widget'', ''d'')] \<and>
   validatorsFromObjects exampleSchemaEnv
     [V1CRD \<lparr>Group = ''example.org'', Kind = ''Widget'',
             Versions = [\<lparr>Name = ''v1'', Schema = Some \<lparr>OpenAPIV3Schema = Some ''a''\<rparr>\<rparr>,
                         \<lparr>Name = ''v2'', Schema = Some \<lparr>OpenAPIV3Schema = Some ''b''\<rparr>\<rparr>,
                         \<lparr>Name = ''v1'', Schema = Some \<lparr>OpenAPIV3Schema = Some ''c''\<rparr>\<rparr>]\<rparr>,
      V1XRD \<lparr>xGroup = ''example.org'', xKind = ''Widget'',
             xVersions = [\<lparr>xName = ''v2'', xSchemaRaw = Some ''d''\<rparr>]\<rparr>]
     Map.empty
     = Inr [gvk ''example.org'' ''v1'' ''Widget'' \<mapsto> ''c'',
            gvk ''example.org'' ''v2'' ''Widget'' \<mapsto> ''d'']"
proof -
  let ?objs = "[V1CRD \<lparr>Group = ''example.org'', Kind = ''Widget'',
             Versions = [\<lparr>Name = ''v1'', Schema = Some \<lparr>OpenAPIV3Schema = Some ''a''\<rparr>\<rparr>,
                         \<lparr>Name = ''v2'', Schema = Some \<lparr>OpenAPIV3Schema = Some ''b''\<rparr>\<rparr>,
                         \<lparr>Name = ''v1'', Schema = Some \<lparr>OpenAPIV3Schema = Some ''c''\<rparr>\<rparr>]\<rparr>,
      V1XRD \<lparr>xGroup = ''example.org'', xKind = ''Widget'',
             xVersions = [\<lparr>xName = ''v2'', xSchemaRaw = Some ''d''\<rparr>]\<rparr>]"
  let ?ps = "[(gvk ''example.org'' ''v1'' ''Widget'', ''a''),
             (gvk ''example.org'' ''v2'' ''Widget'', ''b''),
             (gvk ''example.org'' ''v1'' ''Widget'', ''c''),
             (gvk ''example.org'' ''v2'' ''Widget'', ''d'')]"
  let ?idx = "[gvk ''example.org'' ''v1'' ''Widget'' \<mapsto> ''c'',
               gvk ''example.org'' ''v2'' ''Widget'' \<mapsto> ''d'']"
  have ins: "insertions exampleSchemaEnv ?objs = Some ?ps"
    by (simp add: insertions_def insertionsOfObject_def v1_entry_def xrd_entry_def
          newV1SchemaValidator_def exampleSchemaEnv_def)
  have last: "\<forall>k. ?idx k =
           (case filter (\<lambda>e. fst e = k) ?ps of
              [] \<Rightarrow> Map.empty k
            | e # es \<Rightarrow> Some (snd (last (e # es))))"
    by (simp add: gvk_def)
  show ?thesis
    using validators_last_write_wins [of exampleSchemaEnv ?objs Map.empty ?idx, THEN conjunct1] ins last
    by simp
qed


subsection \<open>Nil schemas\<close>

lemma v1_versions_append:
  "v1_versions env c (pre @ vs) acc =
     (case v1_versions env c pre acc of Inl f \<Rightarrow> Inl f | Inr a \<Rightarrow> v1_versions env c vs a)"
  by (induction pre arbitrary: acc) (auto split: option.splits sum.splits prod.splits)

lemma v1_versions_no_panic:
  "\<forall>v \<in> set vs. \<exists>props. Schema v = Some \<lparr>OpenAPIV3Schema = Some props\<rparr> \<Longrightarrow>
     v1_versions env c vs acc \<noteq> Inl Panic"
  by (induction vs arbitrary: acc) (auto split: option.splits sum.splits prod.splits)

lemma v1_versions_Inr_schemas:
  "v1_versions env c vs acc = Inr acc' \<Longrightarrow>
     \<forall>v \<in> set vs. \<exists>props. Schema v = Some \<lparr>OpenAPIV3Schema = Some props\<rparr>"
proof (induction vs arbitrary: acc)
  case Nil
  then show ?case by simp
next
  case (Cons v vs)
  from Cons.prems obtain cv props where cv: "Schema v = Some cv" and p: "OpenAPIV3Schema cv = Some props"
    by (auto split: option.splits)
  have "cv = \<lparr>OpenAPIV3Schema = Some props\<rparr>"
    using p by (cases cv) simp
  with cv Cons show ?case
    by (auto split: option.splits sum.splits prod.splits)
qed

text \<open>
  C9. \<open>validatorsFromV1CRD\<close> reads the schema of every version through both
  pointers without a check. When the versions before one whose \<open>Schema\<close> is nil, or
  whose \<open>OpenAPIV3Schema\<close> is nil, have compiled, the call panics instead of returning
  an error, and so does the pass over a list that starts with the definition. When
  every version carries a schema the call does not panic, and a call that returns an
  index was given a schema for every version.
\<close>

theorem validatorsFromV1CRD_nil_schema:
  "(Versions c = pre @ v # post \<and> v1_versions env c pre acc = Inr acc1 \<and>
      (Schema v = None \<or> Schema v = Some \<lparr>OpenAPIV3Schema = None\<rparr>) \<longrightarrow>
        validatorsFromV1CRD env c acc = Inl Panic \<and>
        validatorsFromObjects env (V1CRD c # objs) acc = Inl Panic) \<and>
   ((\<forall>v \<in> set (Versions c). \<exists>props. Schema v = Some \<lparr>OpenAPIV3Schema = Some props\<rparr>) \<longrightarrow>
        validatorsFromV1CRD env c acc \<noteq> Inl Panic) \<and>
   (validatorsFromV1CRD env c acc = Inr acc' \<longrightarrow>
        (\<forall>v \<in> set (Versions c). \<exists>props. Schema v = Some \<lparr>OpenAPIV3Schema = Some props\<rparr>))"
proof (intro conjI impI)
  assume a: "Versions c = pre @ v # post \<and> v1_versions env c pre acc = Inr acc1 \<and>
      (Schema v = None \<or> Schema v = Some \<lparr>OpenAPIV3Schema = None\<rparr>)"
  then have "v1_versions env c (v # post) acc1 = Inl Panic"
    by auto
  with a show p: "validatorsFromV1CRD env c acc = Inl Panic"
    by (simp add: validatorsFromV1CRD_def v1_versions_append)
  then show "validatorsFromObjects env (V1CRD c # objs) acc = Inl Panic"
    by (simp add: validatorsFromObject_def)
next
  assume "\<forall>v \<in> set (Versions c). \<exists>props. Schema v = Some \<lparr>OpenAPIV3Schema = Some props\<rparr>"
  then show "validatorsFromV1CRD env c acc \<noteq> Inl Panic"
    unfolding validatorsFromV1CRD_def by (rule v1_versions_no_panic)
next
  assume "validatorsFromV1CRD env c acc = Inr acc'"
  then show "\<forall>v \<in> set (Versions c). \<exists>props. Schema v = Some \<lparr>OpenAPIV3Schema = Some props\<rparr>"
    unfolding validatorsFromV1CRD_def by (rule v1_versions_Inr_schemas)
qed

theorem validatorsFromV1CRD_nil_schema_witness:
  "validatorsFromV1CRD exampleSchemaEnv
     \<lparr>Group = ''example.org'', Kind = ''Widget'',
      Versions = [\<lparr>Name = ''v1'', Schema = Some \<lparr>OpenAPIV3Schema = Some ''a''\<rparr>\<rparr>,
                  \<lparr>Name = ''v2'', Schema = None\<rparr>]\<rparr> Map.empty = Inl Panic \<and>
   validatorsFromObjects exampleSchemaEnv
     [V1CRD \<lparr>Group = ''example.org'', Kind = ''Widget'',
      Versions = [\<lparr>Name = ''v1'', Schema = Some \<lparr>OpenAPIV3Schema = Some ''a''\<rparr>\<rparr>,
                  \<lparr>Name = ''v2'', Schema = None\<rparr>]\<rparr>] Map.empty = Inl Panic \<and>
   validatorsFromV1CRD exampleSchemaEnv
     \<lparr>Group = ''example.org'', Kind = ''Widget'',
      Versions = [\<lparr>Name = ''v1'', Schema = Some \<lparr>OpenAPIV3Schema = Some ''a''\<rparr>\<rparr>]\<rparr> Map.empty
     = Inr [gvk ''example.org'' ''v1'' ''Widget'' \<mapsto> ''a''] \<and>
   FromDir (exampleCollaborators [] [''Provider'']
       [V1CRD \<lparr>Group = ''example.org'', Kind = ''Widget'',
          Versions = [\<lparr>Name = ''v1'', Schema = Some \<lparr>OpenAPIV3Schema = None\<rparr>\<rparr>]\<rparr>])
     exampleSchemaEnv () ''pkg@v1.2.3'' ''xpkg.upbound.io'' ''acme/pkg'' = Inl Panic"
proof -
  let ?c = "\<lparr>Group = ''example.org'', Kind = ''Widget'',
      Versions = [\<lparr>Name = ''v1'', Schema = Some \<lparr>OpenAPIV3Schema = Some ''a''\<rparr>\<rparr>,
                  \<lparr>Name = ''v2'', Schema = None\<rparr>]\<rparr>"
  have pre: "Versions ?c = [\<lparr>Name = ''v1'', Schema = Some \<lparr>OpenAPIV3Schema = Some ''a''\<rparr>\<rparr>] @
               \<lparr>Name = ''v2'', Schema = None\<rparr> # [] \<and>
             v1_versions exampleSchemaEnv ?c
               [\<lparr>Name = ''v1'', Schema = Some \<lparr>OpenAPIV3Schema = Some ''a''\<rparr>\<rparr>] Map.empty
               = Inr [gvk ''example.org'' ''v1'' ''Widget'' \<mapsto> ''a''] \<and>
             (Schema \<lparr>Name = ''v2'', Schema = (None :: string CustomResourceValidation option)\<rparr> = None \<or>
              Schema \<lparr>Name = ''v2'', Schema = None\<rparr> = Some \<lparr>OpenAPIV3Schema = (None :: string option)\<rparr>)"
    by (simp add: newV1SchemaValidator_def exampleSchemaEnv_def)
  show ?thesis
    using validatorsFromV1CRD_nil_schema [of ?c
            "[\<lparr>Name = ''v1'', Schema = Some \<lparr>OpenAPIV3Schema = Some ''a''\<rparr>\<rparr>]"
            "\<lparr>Name = ''v2'', Schema = None\<rparr>" "[]" exampleSchemaEnv Map.empty
            "[gvk ''example.org'' ''v1'' ''Widget'' \<mapsto> ''a'']" "[]" Map.empty] pre
    by (simp add: validatorsFromV1CRD_def newV1SchemaValidator_def exampleSchemaEnv_def
          FromDir_def NewFsReadCloser_def parse_def finalizePkg_def determineDeps_def
          exampleCollaborators_def validatorsFromObject_def Let_def ConfigurationKind_def)
qed


subsection \<open>Unrecognised body objects\<close>

lemma validatorsFromObjects_append:
  "validatorsFromObjects env (pre @ rest) acc =
     (case validatorsFromObjects env pre acc of
        Inl f \<Rightarrow> Inl f
      | Inr a \<Rightarrow> validatorsFromObjects env rest a)"
  by (induction pre arbitrary: acc) (auto split: sum.splits)

lemma validatorsFromObjects_other:
  "OtherObject n \<in> set objs \<Longrightarrow> \<exists>f. validatorsFromObjects env objs acc = Inl f"
  by (induction objs arbitrary: acc) (auto simp: validatorsFromObject_def split: sum.splits)

text \<open>
  C3. A pass over a list that contains an object of none of the four shapes never
  yields an index, so \<open>finalizePkg\<close> returns no package. The failure is
  \<open>errObjectNotKnownType\<close> when the objects before the unrecognised one are
  processed without failure, wherever in the list it stands; when an earlier object
  fails, the pass ends there with the failure of that object.
\<close>

theorem unknown_object_fails:
  assumes "OtherObject n \<in> set objs"
  shows "(\<exists>f. validatorsFromObjects env objs acc = Inl f) \<and>
         (Objs pkg = objs \<longrightarrow> (\<exists>f. finalizePkg r env reg repo ver digest pkg = Inl f)) \<and>
         (\<forall>pre post a. objs = pre @ OtherObject n # post \<and>
              validatorsFromObjects env pre acc = Inr a \<longrightarrow>
              validatorsFromObjects env objs acc = Inl (Returned (New errObjectNotKnownType))) \<and>
         (\<forall>pre post f. objs = pre @ post \<and> validatorsFromObjects env pre acc = Inl f \<longrightarrow>
              validatorsFromObjects env objs acc = Inl f)"
proof (intro conjI allI impI)
  show "\<exists>f. validatorsFromObjects env objs acc = Inl f"
    using assms by (rule validatorsFromObjects_other)
next
  assume "Objs pkg = objs"
  moreover have "\<exists>f. validatorsFromObjects env objs Map.empty = Inl f"
    using assms by (rule validatorsFromObjects_other)
  ultimately show "\<exists>f. finalizePkg r env reg repo ver digest pkg = Inl f"
    by (auto simp: finalizePkg_def split: sum.splits)
next
  fix pre post a
  assume "objs = pre @ OtherObject n # post \<and> validatorsFromObjects env pre acc = Inr a"
  then show "validatorsFromObjects env objs acc = Inl (Returned (New errObjectNotKnownType))"
    by (simp add: validatorsFromObjects_append validatorsFromObject_def)
next
  fix pre post f
  assume "objs = pre @ post \<and> validatorsFromObjects env pre acc = Inl f"
  then show "validatorsFromObjects env objs acc = Inl f"
    by (simp add: validatorsFromObjects_append)
qed

theorem unknown_object_fails_witness:
  "validatorsFromObjects exampleSchemaEnv
     [V1XRD \<lparr>xGroup = ''example.org'', xKind = ''XWidget'',
             xVersions = [\<lparr>xName = ''v1'', xSchemaRaw = Some ''{}''\<rparr>]\<rparr>,
      OtherObject ''Deployment'',
      V1XRD \<lparr>xGroup = ''example.org'', xKind = ''XGadget'',
             xVersions = [\<lparr>xName = ''v1'', xSchemaRaw = Some ''{''\<rparr>]\<rparr>] Map.empty
     = Inl (Returned (New ''object is not a known type'')) \<and>
   FromDir (exampleCollaborators [] [''Provider'']
       [V1XRD \<lparr>xGroup = ''example.org'', xKind = ''XWidget'',
               xVersions = [\<lparr>xName = ''v1'', xSchemaRaw = Some ''{}''\<rparr>]\<rparr>,
        OtherObject ''Deployment''])
     exampleSchemaEnv () ''pkg@v1.2.3'' ''xpkg.upbound.io'' ''acme/pkg''
     = Inl (Returned (New ''object is not a known type''))"
proof -
  let ?x = "V1XRD \<lparr>xGroup = ''example.org'', xKind = ''XWidget'',
             xVersions = [\<lparr>xName = ''v1'', xSchemaRaw = Some ''{}''\<rparr>]\<rparr> :: (string InternalCRD, string) Object"
  let ?y = "V1XRD \<lparr>xGroup = ''example.org'', xKind = ''XGadget'',
             xVersions = [\<lparr>xName = ''v1'', xSchemaRaw = Some ''{''\<rparr>]\<rparr> :: (string InternalCRD, string) Object"
  have mem: "OtherObject ''Deployment'' \<in> set [?x, OtherObject ''Deployment'', ?y]"
    by simp
  have pre: "[?x, OtherObject ''Deployment'', ?y] = [?x] @ OtherObject ''Deployment'' # [?y] \<and>
             validatorsFromObjects exampleSchemaEnv [?x] Map.empty
               = Inr [gvk ''example.org'' ''v1'' ''XWidget'' \<mapsto> ''{}'']"
    by (simp add: validatorsFromObject_def validatorsFromV1XRD_def newV1SchemaValidator_def
          exampleSchemaEnv_def)
  have one: "validatorsFromObjects exampleSchemaEnv [?x, OtherObject ''Deployment'', ?y] Map.empty
     = Inl (Returned (New ''object is not a known type''))"
    using unknown_object_fails [OF mem, of exampleSchemaEnv Map.empty, THEN conjunct2, THEN conjunct2,
            THEN conjunct1, rule_format, OF pre]
    by (simp add: errObjectNotKnownType_def)
  show ?thesis
    using one
    by (simp add: FromDir_def NewFsReadCloser_def parse_def finalizePkg_def determineDeps_def
          exampleCollaborators_def validatorsFromObject_def validatorsFromV1XRD_def
          newV1SchemaValidator_def exampleSchemaEnv_def Let_def ConfigurationKind_def
          errObjectNotKnownType_def)
qed

text \<open>
  The failure is not \<open>errObjectNotKnownType\<close> for every list with an unrecognised
  object: before it, a composite definition whose raw schema does not decode makes the
  pass return the decoding error, and a definition with a nil schema makes it panic.
\<close>

theorem unknown_object_position_counterexample:
  "validatorsFromObjects exampleSchemaEnv
     [V1XRD \<lparr>xGroup = ''example.org'', xKind = ''XWidget'',
             xVersions = [\<lparr>xName = ''v1'', xSchemaRaw = Some ''{''\<rparr>]\<rparr>,
      OtherObject ''Deployment''] Map.empty
     = Inl (Returned (New ''unexpected end of JSON input'')) \<and>
   validatorsFromObjects exampleSchemaEnv
     [V1CRD \<lparr>Group = ''example.org'', Kind = ''Widget'',
             Versions = [\<lparr>Name = ''v1'', Schema = None\<rparr>]\<rparr>,
      OtherObject ''Deployment''] Map.empty
     = Inl Panic \<and>
   Inl (Returned (New ''unexpected end of JSON input'')) \<noteq>
     (Inl (Returned (New errObjectNotKnownType)) :: failure + string Index) \<and>
   Inl Panic \<noteq> (Inl (Returned (New errObjectNotKnownType)) :: failure + string Index)"
  by (simp add: validatorsFromObject_def validatorsFromV1XRD_def validatorsFromV1CRD_def
        exampleSchemaEnv_def errObjectNotKnownType_def)


subsection \<open>Legacy definitions with a top-level validation\<close>

lemma fold_same_validator_lookup:
  "fold (\<lambda>v a. a(key v \<mapsto> sv)) vs acc = (\<lambda>k. if k \<in> key ` set vs then Some sv else acc k)"
  by (induction vs arbitrary: acc) (auto simp: fun_eq_iff)

lemma gvk_inj: "gvk g n k = gvk g n' k \<longleftrightarrow> n = n'"
  by (simp add: gvk_def)

lemma card_version_keys:
  assumes "distinct (map iName vs)"
  shows "card ((\<lambda>v. gvk g (iName v) k) ` set vs) = length vs"
proof -
  have "inj_on (\<lambda>v. gvk g (iName v) k) (set vs)"
    using assms by (auto simp: inj_on_def gvk_inj distinct_map)
  then have "card ((\<lambda>v. gvk g (iName v) k) ` set vs) = card (set vs)"
    by (rule card_image)
  also have "\<dots> = length vs"
    using assms by (simp add: distinct_card distinct_map)
  finally show ?thesis .
qed

text \<open>
  C1. For a legacy definition whose internal representation has a top-level
  validation, \<open>validatorsFromV1Beta1CRD\<close> compiles that validation alone and, when
  it compiles, stores the one validator under the key of every declared version; the
  schemas of the versions play no part. When the version names are pairwise distinct, a
  pass over the single definition yields an index with as many entries as there are
  versions, all of them that validator. The schemas of the versions are compiled
  when there is no top-level validation.
\<close>

theorem validatorsFromV1Beta1CRD_top_level:
  assumes "Convert_v1beta1_CRD env c = Inr internal"
  shows
    "(\<forall>top. iValidation internal = Some top \<longrightarrow>
        validatorsFromV1Beta1CRD env c acc =
          (case validation_NewSchemaValidator env (Some top) of
             Inl err \<Rightarrow> Inl (Returned err)
           | Inr sv \<Rightarrow>
               Inr (\<lambda>k. if k \<in> (\<lambda>v. gvk (iGroup internal) (iName v) (iKind internal)) `
                                  set (iVersions internal)
                        then Some sv else acc k))) \<and>
     (\<forall>top sv. iValidation internal = Some top \<and>
          validation_NewSchemaValidator env (Some top) = Inr sv \<and>
          distinct (map iName (iVersions internal)) \<longrightarrow>
        (\<exists>idx. validatorsFromObjects env [V1Beta1CRD c] Map.empty = Inr idx \<and>
               card (dom idx) = length (iVersions internal) \<and>
               ran idx \<subseteq> {sv})) \<and>
     (iValidation internal = None \<longrightarrow>
        (validatorsFromV1Beta1CRD env c acc = Inr acc') =
          (\<exists>ps. those (map (v1beta1_entry env internal) (iVersions internal)) = Some ps \<and>
                acc' = insertAll ps acc))"
proof (intro conjI allI impI)
  fix top
  assume "iValidation internal = Some top"
  with assms show "validatorsFromV1Beta1CRD env c acc =
          (case validation_NewSchemaValidator env (Some top) of
             Inl err \<Rightarrow> Inl (Returned err)
           | Inr sv \<Rightarrow>
               Inr (\<lambda>k. if k \<in> (\<lambda>v. gvk (iGroup internal) (iName v) (iKind internal)) `
                                  set (iVersions internal)
                        then Some sv else acc k))"
    by (simp add: validatorsFromV1Beta1CRD_def fold_same_validator_lookup split: sum.splits)
next
  fix top sv
  assume a: "iValidation internal = Some top \<and>
          validation_NewSchemaValidator env (Some top) = Inr sv \<and>
          distinct (map iName (iVersions internal))"
  let ?keys = "(\<lambda>v. gvk (iGroup internal) (iName v) (iKind internal)) ` set (iVersions internal)"
  let ?idx = "\<lambda>k. if k \<in> ?keys then Some sv else None"
  have run: "validatorsFromObjects env [V1Beta1CRD c] Map.empty = Inr ?idx"
    using assms a
    by (simp add: validatorsFromObject_def validatorsFromV1Beta1CRD_def fold_same_validator_lookup)
  have dom: "dom ?idx = ?keys"
    by (auto simp: dom_def)
  have card: "card (dom ?idx) = length (iVersions internal)"
    unfolding dom using a by (simp add: card_version_keys)
  have ran: "ran ?idx \<subseteq> {sv}"
    by (auto simp: ran_def)
  from run card ran
  show "\<exists>idx. validatorsFromObjects env [V1Beta1CRD c] Map.empty = Inr idx \<and>
               card (dom idx) = length (iVersions internal) \<and> ran idx \<subseteq> {sv}"
    by blast
next
  assume "iValidation internal = None"
  with assms show "(validatorsFromV1Beta1CRD env c acc = Inr acc') =
          (\<exists>ps. those (map (v1beta1_entry env internal) (iVersions internal)) = Some ps \<and>
                acc' = insertAll ps acc)"
    by (simp add: validatorsFromV1Beta1CRD_def v1beta1_versions_insertions)
qed

theorem validatorsFromV1Beta1CRD_top_level_witness:
  "validatorsFromObjects exampleSchemaEnv
     [V1Beta1CRD (exampleLegacyCRD [''v1alpha1'', ''v1beta1'', ''v1''])] Map.empty
     = Inr [gvk ''example.org'' ''v1alpha1'' ''Widget'' \<mapsto> ''top'',
            gvk ''example.org'' ''v1beta1'' ''Widget'' \<mapsto> ''top'',
            gvk ''example.org'' ''v1'' ''Widget'' \<mapsto> ''top''] \<and>
   card (dom [gvk ''example.org'' ''v1alpha1'' ''Widget'' \<mapsto> ''top'',
              gvk ''example.org'' ''v1beta1'' ''Widget'' \<mapsto> ''top'',
              gvk ''example.org'' ''v1'' ''Widget'' \<mapsto> ''top'']) = 3 \<and>
   validatorsFromObjects exampleSchemaEnv
     [V1Beta1CRD ((exampleLegacyCRD [''v1alpha1'', ''v1'']) \<lparr>iValidation := None\<rparr>)] Map.empty
     = Inr [gvk ''example.org'' ''v1alpha1'' ''Widget'' \<mapsto> ''schema of v1alpha1'',
            gvk ''example.org'' ''v1'' ''Widget'' \<mapsto> ''schema of v1'']"
proof -
  let ?c = "exampleLegacyCRD [''v1alpha1'', ''v1beta1'', ''v1'']"
  have conv: "Convert_v1beta1_CRD exampleSchemaEnv ?c = Inr ?c"
    by (simp add: exampleSchemaEnv_def)
  have top: "iValidation ?c = Some ''top'' \<and>
             validation_NewSchemaValidator exampleSchemaEnv (Some ''top'') = Inr ''top'' \<and>
             distinct (map iName (iVersions ?c))"
    by (simp add: exampleSchemaEnv_def exampleLegacyCRD_def)
  from validatorsFromV1Beta1CRD_top_level [OF conv, THEN conjunct2, THEN conjunct1, rule_format, OF top]
  obtain idx where idx: "validatorsFromObjects exampleSchemaEnv [V1Beta1CRD ?c] Map.empty = Inr idx"
    and card: "card (dom idx) = length (iVersions ?c)"
    by blast
  have run: "validatorsFromObjects exampleSchemaEnv [V1Beta1CRD ?c] Map.empty
     = Inr [gvk ''example.org'' ''v1alpha1'' ''Widget'' \<mapsto> ''top'',
            gvk ''example.org'' ''v1beta1'' ''Widget'' \<mapsto> ''top'',
            gvk ''example.org'' ''v1'' ''Widget'' \<mapsto> ''top'']"
    by (simp add: validatorsFromObject_def validatorsFromV1Beta1CRD_def exampleSchemaEnv_def
          exampleLegacyCRD_def)
  have three: "card (dom [gvk ''example.org'' ''v1alpha1'' ''Widget'' \<mapsto> ''top'',
              gvk ''example.org'' ''v1beta1'' ''Widget'' \<mapsto> ''top'',
              gvk ''example.org'' ''v1'' ''Widget'' \<mapsto> ''top'']) = 3"
    using idx card run by (simp add: exampleLegacyCRD_def)
  have per: "validatorsFromObjects exampleSchemaEnv
     [V1Beta1CRD ((exampleLegacyCRD [''v1alpha1'', ''v1'']) \<lparr>iValidation := None\<rparr>)] Map.empty
     = Inr [gvk ''example.org'' ''v1alpha1'' ''Widget'' \<mapsto> ''schema of v1alpha1'',
            gvk ''example.org'' ''v1'' ''Widget'' \<mapsto> ''schema of v1'']"
    by (simp add: validatorsFromObject_def validatorsFromV1Beta1CRD_def exampleSchemaEnv_def
          exampleLegacyCRD_def)
  from run three per show ?thesis by simp
qed

text \<open>
  Three declared versions do not always give three entries: versions of the same name
  share a key, and three versions named \<open>v1\<close> give one entry.
\<close>

theorem three_versions_counterexample:
  "validatorsFromObjects exampleSchemaEnv
     [V1Beta1CRD (exampleLegacyCRD [''v1'', ''v1'', ''v1''])] Map.empty
     = Inr [gvk ''example.org'' ''v1'' ''Widget'' \<mapsto> ''top''] \<and>
   length (iVersions (exampleLegacyCRD [''v1'', ''v1'', ''v1''])) = 3 \<and>
   card (dom [gvk ''example.org'' ''v1'' ''Widget'' \<mapsto> ''top'']) = 1"
  by (simp add: validatorsFromObject_def validatorsFromV1Beta1CRD_def exampleSchemaEnv_def
        exampleLegacyCRD_def)

end
